theory Spec2Isabelle
  imports Main "HOL-Library.Char_ord" "HOL-Library.List_Lexorder" "HOL-Library.Multiset"
begin

section \<open>JavaScript primitives used by the timetable API\<close>

text \<open>
  Strings are byte lists; the non-ASCII literals of \<^verbatim>\<open>api.js\<close> are written as
  their UTF-8 bytes. The order on strings is the lexicographic order on character codes,
  which is what the JavaScript operators \<^verbatim>\<open><\<close>, \<^verbatim>\<open>>=\<close> compute on
  the ASCII strings compared by the code.
\<close>

definition digitChar :: "nat \<Rightarrow> char" where
  "digitChar n = ''0123456789'' ! n"

text \<open>\<^verbatim>\<open>String(n)\<close>, \<^verbatim>\<open>n.toString()\<close> and template interpolation of a
  non-negative integer.\<close>

fun natToString :: "nat \<Rightarrow> string" where
  "natToString n =
     (if n < 10 then [digitChar n] else natToString (n div 10) @ [digitChar (n mod 10)])"

declare natToString.simps [simp del]

definition padStart :: "nat \<Rightarrow> char \<Rightarrow> string \<Rightarrow> string" where
  "padStart n c s = replicate (n - length s) c @ s"

text \<open>\<^verbatim>\<open>s.split(c)\<close> for a one-character separator.\<close>

fun split :: "char \<Rightarrow> string \<Rightarrow> string list" where
  "split c [] = [[]]"
| "split c (x # xs) =
     (if x = c then [] # split c xs
      else (case split c xs of [] \<Rightarrow> [[x]] | p # ps \<Rightarrow> (x # p) # ps))"

definition isDigit :: "char \<Rightarrow> bool" where
  "isDigit c = (CHR ''0'' \<le> c \<and> c \<le> CHR ''9'')"

definition digitVal :: "char \<Rightarrow> nat" where
  "digitVal c = of_char c - 48"

definition decimalValue :: "string \<Rightarrow> nat" where
  "decimalValue s = foldl (\<lambda>acc c. 10 * acc + digitVal c) 0 s"

text \<open>
  \<^verbatim>\<open>Number(s)\<close> on the strings the catalog holds: a run of decimal digits is its value
  and the empty string is 0. \<open>None\<close> is \<^verbatim>\<open>NaN\<close>; the other numeric literal
  syntaxes of JavaScript (sign, fraction, exponent, radix prefix, surrounding white space)
  do not occur in \<^verbatim>\<open>HH:MM\<close> times and are reported as \<open>None\<close> as well.
\<close>

definition toNumber :: "string \<Rightarrow> int option" where
  "toNumber s = (if list_all isDigit s then Some (int (decimalValue s)) else None)"

definition isWhiteSpace :: "char \<Rightarrow> bool" where
  "isWhiteSpace c = (c \<in> set [CHR 0x20, CHR 0x09, CHR 0x0A, CHR 0x0B, CHR 0x0C, CHR 0x0D])"

text \<open>
  \<^verbatim>\<open>parseInt(s)\<close> with no radix, on strings that do not start with a
  \<^verbatim>\<open>0x\<close> prefix: leading white space and one sign are skipped, the longest run of
  decimal digits is read, and no digit at all gives \<^verbatim>\<open>NaN\<close> (\<open>None\<close>).
\<close>

definition parseInt :: "string \<Rightarrow> int option" where
  "parseInt s =
     (let t = dropWhile isWhiteSpace s;
          neg = (t \<noteq> [] \<and> hd t = CHR ''-'');
          u = (if t \<noteq> [] \<and> (hd t = CHR ''-'' \<or> hd t = CHR ''+'') then tl t else t);
          ds = takeWhile isDigit u
      in if ds = [] then None
         else Some (if neg then - int (decimalValue ds) else int (decimalValue ds)))"

text \<open>
  \<^verbatim>\<open>a.localeCompare(b)\<close>: negative, zero or positive. On zero-padded
  \<^verbatim>\<open>HH:MM\<close> strings every locale's collation agrees with the order on character
  codes, which is the order used here.
\<close>

definition localeCompare :: "string \<Rightarrow> string \<Rightarrow> int" where
  "localeCompare a b = (if a < b then - 1 else if b < a then 1 else 0)"

text \<open>
  \<^verbatim>\<open>xs.sort(cmp)\<close>: the sort of an array is stable, so for a comparator that
  orders by a key the result is the one list that is sorted and keeps equal elements in
  their order. It is computed here by insertion from the right.
\<close>

fun insertSorted :: "('a \<Rightarrow> 'a \<Rightarrow> int) \<Rightarrow> 'a \<Rightarrow> 'a list \<Rightarrow> 'a list" where
  "insertSorted cmp x [] = [x]"
| "insertSorted cmp x (y # ys) =
     (if cmp x y \<le> 0 then x # y # ys else y # insertSorted cmp x ys)"

fun sortWith :: "('a \<Rightarrow> 'a \<Rightarrow> int) \<Rightarrow> 'a list \<Rightarrow> 'a list" where
  "sortWith cmp [] = []"
| "sortWith cmp (x # xs) = insertSorted cmp x (sortWith cmp xs)"

text \<open>\<^verbatim>\<open>x || null\<close> for a table lookup: a missing entry, the number 0 and the
  empty string are falsy.\<close>

definition orNullNum :: "nat option \<Rightarrow> nat option" where
  "orNullNum v = (case v of None \<Rightarrow> None | Some n \<Rightarrow> if n = 0 then None else Some n)"

definition orNullStr :: "string option \<Rightarrow> string option" where
  "orNullStr v = (case v of None \<Rightarrow> None | Some s \<Rightarrow> if s = [] then None else Some s)"

section \<open>The device clock and \<^verbatim>\<open>Date\<close>\<close>

text \<open>
  One reading of \<^verbatim>\<open>new Date()\<close>: the local calendar fields its getters return,
  and \<open>getTime\<close>, the milliseconds since the epoch.
\<close>

record instant =
  getFullYear :: nat
  getMonth :: nat
  getDate :: nat
  getHours :: nat
  getMinutes :: nat
  getSeconds :: nat
  getMilliseconds :: nat
  getTime :: int

definition msOfDay :: "instant \<Rightarrow> int" where
  "msOfDay d =
     ((int (getHours d) * 60 + int (getMinutes d)) * 60 + int (getSeconds d)) * 1000
       + int (getMilliseconds d)"

text \<open>
  \<^verbatim>\<open>d.setHours(h, m, 0, 0); d.getTime()\<close>: the start of \<open>d\<close>'s local day plus
  \<open>h\<close> hours and \<open>m\<close> minutes (on a day without a change of the local UTC offset).
\<close>

definition setHours :: "instant \<Rightarrow> int \<Rightarrow> int \<Rightarrow> int" where
  "setHours d h m = getTime d - msOfDay d + (h * 60 + m) * 60000"

section \<open>The configuration tables and the result records\<close>

record span =
  start :: string
  end' :: string

text \<open>
  An item of \<^verbatim>\<open>TimetableApp.buildScheduleItems\<close>: the start and end spread from
  the catalog object, then \<^verbatim>\<open>type\<close>, \<^verbatim>\<open>displayName\<close> and
  \<^verbatim>\<open>subject\<close>. Only an item made from a break has a \<^verbatim>\<open>name\<close>.
\<close>

record display_item = span +
  name :: "string option"
  type :: string
  displayName :: string
  subject :: string

record named_span = span +
  name :: string

record timetable =
  preSchoolAssembly :: "span option"
  periods :: "span list"
  breaks :: "named_span list"

text \<open>
  The four tables of \<^verbatim>\<open>timetable-data.js\<close> and the \<^verbatim>\<open>Date\<close> constructor
  of the host: \<open>dateOf w s = Some d\<close> when \<^verbatim>\<open>new Date(s)\<close> is a valid date whose
  \<^verbatim>\<open>getDay()\<close> is \<open>d\<close> (0 is Sunday), and \<open>None\<close> when it is an invalid date.
\<close>

record world =
  timetableData :: "string \<rightharpoonup> timetable"
  subjectSchedule :: "nat \<rightharpoonup> (nat \<rightharpoonup> string)"
  dayRotation :: "string \<rightharpoonup> nat"
  specialDates :: "string \<rightharpoonup> string"
  dateOf :: "string \<Rightarrow> nat option"

record schedule_item = named_span +
  type :: string
  displayName :: string
  periodNumber :: "nat option"
  subject :: string
  duration :: "int option"

record error_info =
  message :: string

record day_data =
  date :: string
  dayOfWeek :: "string option"
  dayOfWeekNumber :: nat
  dayCycle :: "nat option"
  timetableType :: string
  timetableTypeName :: string
  isSchoolDay :: bool
  isWeekend :: bool
  schedule :: "schedule_item list"
  periods :: "nat option"
  breaks :: "nat option"
  preSchoolAssembly :: "span option"
  message :: "string option"

text \<open>The envelope; \<open>timestamp\<close> is the instant whose
  \<^verbatim>\<open>toISOString()\<close> the field holds.\<close>

record 'a envelope =
  success :: bool
  timestamp :: instant
  data :: "'a option"
  error :: "error_info option"

section \<open>String literals of the source\<close>

definition txtAssembly :: string where
  "txtAssembly = [CHR 0xE6, CHR 0x9C, CHR 0x9D, CHR 0xE6, CHR 0x9C, CHR 0x83]"

definition txtLesson :: string where
  "txtLesson = [CHR 0xE8, CHR 0xAA, CHR 0xB2, CHR 0xE7, CHR 0xA8, CHR 0x8B]"

definition txtOrdinal :: string where
  "txtOrdinal = [CHR 0xE7, CHR 0xAC, CHR 0xAC]"

definition txtPeriodSuffix :: string where
  "txtPeriodSuffix = [CHR 0xE7, CHR 0xAF, CHR 0x80]"

definition txtWeekendRest :: string where
  "txtWeekendRest = [CHR 0xE9, CHR 0x80, CHR 0xB1, CHR 0xE6, CHR 0x9C, CHR 0xAB,
     CHR 0xE4, CHR 0xBC, CHR 0x91, CHR 0xE6, CHR 0x81, CHR 0xAF]"

definition txtNonSchoolDay :: string where
  "txtNonSchoolDay = [CHR 0xE9, CHR 0x9D, CHR 0x9E, CHR 0xE4, CHR 0xB8, CHR 0x8A,
     CHR 0xE8, CHR 0xAA, CHR 0xB2, CHR 0xE6, CHR 0x97, CHR 0xA5]"

definition txtNoLessonsToday :: string where
  "txtNoLessonsToday = [CHR 0xE4, CHR 0xBB, CHR 0x8A, CHR 0xE6, CHR 0x97, CHR 0xA5,
     CHR 0xE6, CHR 0xB2, CHR 0x92, CHR 0xE6, CHR 0x9C, CHR 0x89,
     CHR 0xE8, CHR 0xAA, CHR 0xB2, CHR 0xE7, CHR 0xA8, CHR 0x8B]"

definition txtWeekday :: string where
  "txtWeekday = [CHR 0xE6, CHR 0x98, CHR 0x9F, CHR 0xE6, CHR 0x9C, CHR 0x9F]"

definition txtNormalTimetable :: string where
  "txtNormalTimetable = [CHR 0xE6, CHR 0xAD, CHR 0xA3, CHR 0xE5, CHR 0xB8, CHR 0xB8,
     CHR 0xE6, CHR 0x99, CHR 0x82, CHR 0xE9, CHR 0x96, CHR 0x93, CHR 0xE8, CHR 0xA1, CHR 0xA8]"

definition txtSpecialTimetable :: string where
  "txtSpecialTimetable = [CHR 0xE7, CHR 0x89, CHR 0xB9, CHR 0xE6, CHR 0xAE, CHR 0x8A,
     CHR 0xE6, CHR 0x99, CHR 0x82, CHR 0xE9, CHR 0x96, CHR 0x93, CHR 0xE8, CHR 0xA1, CHR 0xA8]"

definition dayOfWeekNames :: "string list" where
  "dayOfWeekNames =
     [txtWeekday @ [CHR 0xE6, CHR 0x97, CHR 0xA5],
      txtWeekday @ [CHR 0xE4, CHR 0xB8, CHR 0x80],
      txtWeekday @ [CHR 0xE4, CHR 0xBA, CHR 0x8C],
      txtWeekday @ [CHR 0xE4, CHR 0xB8, CHR 0x89],
      txtWeekday @ [CHR 0xE5, CHR 0x9B, CHR 0x9B],
      txtWeekday @ [CHR 0xE4, CHR 0xBA, CHR 0x94],
      txtWeekday @ [CHR 0xE5, CHR 0x85, CHR 0xAD]]"

definition timetableTypeNames :: "(string \<times> string) list" where
  "timetableTypeNames =
     [(''normal'', txtNormalTimetable),
      (''specialA'', txtSpecialTimetable @ ''A - '' @
       [CHR 0xE5, CHR 0xAD, CHR 0xB8, CHR 0xE6, CHR 0x9C, CHR 0x9F,
       CHR 0xE5, CHR 0x88, CHR 0x9D]),
      (''specialB'', txtSpecialTimetable @ ''B''),
      (''specialC'', txtSpecialTimetable @ ''C - '' @
       [CHR 0xE9, CHR 0x95, CHR 0xB7, CHR 0xE9, CHR 0x9B, CHR 0x86,
       CHR 0xE6, CHR 0x9C, CHR 0x83]),
      (''specialD'', txtSpecialTimetable @ ''D - '' @
       [CHR 0xE7, CHR 0xA4, CHR 0xBE, CHR 0xE9, CHR 0x9A, CHR 0x9B,
       CHR 0xE8, CHR 0x81, CHR 0x9A, CHR 0xE6, CHR 0x9C, CHR 0x83]),
      (''specialE'', txtSpecialTimetable @ ''E - '' @
       [CHR 0xE8, CHR 0xB3, CHR 0x87, CHR 0xE8, CHR 0xA8, CHR 0x8A,
       CHR 0xE6, CHR 0x97, CHR 0xA5, CHR 0xE6, CHR 0xBA, CHR 0x96,
       CHR 0xE5, CHR 0x82, CHR 0x99]),
      (''none'', txtNonSchoolDay)]"

section \<open>\<^verbatim>\<open>TimetableAPI\<close>\<close>

definition getDayOfWeekName :: "nat \<Rightarrow> string option" where
  "getDayOfWeekName day = (if day < length dayOfWeekNames then Some (dayOfWeekNames ! day) else None)"

definition getTimetableTypeName :: "string \<Rightarrow> string" where
  "getTimetableTypeName ty =
     (case orNullStr (map_of timetableTypeNames ty) of Some n \<Rightarrow> n | None \<Rightarrow> ty)"

definition errorResponse :: "instant \<Rightarrow> string \<Rightarrow> 'a envelope" where
  "errorResponse ts msg =
     \<lparr>success = False, timestamp = ts, data = None,
      error = Some \<lparr>error_info.message = msg\<rparr>\<rparr>"

definition calculateDuration :: "string \<Rightarrow> string \<Rightarrow> int option" where
  "calculateDuration s e =
     (let sp = map toNumber (split (CHR '':'') s);
          ep = map toNumber (split (CHR '':'') e)
      in case (sp, ep) of
           (Some startH # Some startM # _, Some endH # Some endM # _) \<Rightarrow>
             Some ((endH * 60 + endM) - (startH * 60 + startM))
         | _ \<Rightarrow> None)"

text \<open>\<^verbatim>\<open>this.subjectSchedule[dayCycle]?.[periodNumber] || '...'\<close>\<close>

definition subjectFor :: "world \<Rightarrow> nat option \<Rightarrow> nat \<Rightarrow> string" where
  "subjectFor w dc periodNo =
     (case dc of None \<Rightarrow> txtLesson
      | Some c \<Rightarrow>
          (case subjectSchedule w c of None \<Rightarrow> txtLesson
           | Some row \<Rightarrow>
               (case orNullStr (row periodNo) of None \<Rightarrow> txtLesson | Some s \<Rightarrow> s)))"

definition assemblyItem :: "span \<Rightarrow> schedule_item" where
  "assemblyItem a =
     \<lparr>start = start a, end' = end' a, name = txtAssembly,
      type = ''assembly'', displayName = txtAssembly, periodNumber = None,
      subject = ''Pre-School Assembly'',
      duration = calculateDuration (start a) (end' a)\<rparr>"

definition periodItem :: "world \<Rightarrow> nat option \<Rightarrow> nat \<Rightarrow> span \<Rightarrow> schedule_item" where
  "periodItem w dc index period =
     (let periodNo = index + 1
      in \<lparr>start = start period, end' = end' period,
          name = txtOrdinal @ natToString periodNo @ txtPeriodSuffix,
          type = ''period'', displayName = ''P'' @ natToString periodNo,
          periodNumber = Some periodNo,
          subject = subjectFor w dc periodNo,
          duration = calculateDuration (start period) (end' period)\<rparr>)"

definition breakItem :: "named_span \<Rightarrow> schedule_item" where
  "breakItem breakTime =
     \<lparr>start = start breakTime, end' = end' breakTime, name = name breakTime,
      type = ''break'', displayName = name breakTime, periodNumber = None,
      subject = name breakTime,
      duration = calculateDuration (start breakTime) (end' breakTime)\<rparr>"

text \<open>The array \<^verbatim>\<open>schedule\<close> of \<^verbatim>\<open>buildSchedule\<close> after its three groups
  of \<^verbatim>\<open>push\<close> calls and before \<^verbatim>\<open>sort\<close>.\<close>

definition pushedItems :: "world \<Rightarrow> timetable \<Rightarrow> nat option \<Rightarrow> schedule_item list" where
  "pushedItems w tt dc =
     (case timetable.preSchoolAssembly tt of None \<Rightarrow> [] | Some a \<Rightarrow> [assemblyItem a])
     @ map (\<lambda>(index, period). periodItem w dc index period) (enumerate 0 (timetable.periods tt))
     @ map breakItem (timetable.breaks tt)"

definition buildSchedule :: "world \<Rightarrow> timetable \<Rightarrow> nat option \<Rightarrow> schedule_item list" where
  "buildSchedule w tt dc =
     sortWith (\<lambda>a b. localeCompare (start a) (start b)) (pushedItems w tt dc)"

text \<open>The variant chosen by \<^verbatim>\<open>getByDate\<close> (lines 41 to 48) from the weekday, the
  day cycle and the override of the date.\<close>

definition resolveType :: "nat \<Rightarrow> nat option \<Rightarrow> string option \<Rightarrow> string" where
  "resolveType dow dc specialType =
     (case specialType of
        Some t \<Rightarrow> ''special'' @ t
      | None \<Rightarrow>
          if (dow = 0 \<or> dow = 6) \<or> dc = None then ''none''
          else if dow = 5 then ''specialB''
          else ''normal'')"

definition getByDate :: "world \<Rightarrow> instant \<Rightarrow> string \<Rightarrow> day_data envelope" where
  "getByDate w ts dateStr =
     (case dateOf w (dateStr @ ''T00:00:00'') of
        None \<Rightarrow> errorResponse ts ''Invalid date format. Use YYYY-MM-DD''
      | Some dow \<Rightarrow>
          (let weekend = (dow = 0 \<or> dow = 6);
               dc = orNullNum (dayRotation w dateStr);
               specialType = orNullStr (specialDates w dateStr);
               ty = resolveType dow dc specialType;
               schoolDay = (ty \<noteq> ''none'');
               tt = timetableData w ty;
               d = \<lparr>date = dateStr, dayOfWeek = getDayOfWeekName dow,
                    dayOfWeekNumber = dow, dayCycle = dc, timetableType = ty,
                    timetableTypeName = getTimetableTypeName ty,
                    isSchoolDay = schoolDay, isWeekend = weekend,
                    schedule = [], periods = None, breaks = None,
                    preSchoolAssembly = None, message = None\<rparr>
           in \<lparr>success = True, timestamp = ts,
               data = Some
                 (case (if schoolDay then tt else None) of
                    Some t \<Rightarrow>
                      d\<lparr>schedule := buildSchedule w t dc,
                        day_data.periods := Some (length (timetable.periods t)),
                        day_data.breaks := Some (length (timetable.breaks t)),
                        day_data.preSchoolAssembly := timetable.preSchoolAssembly t\<rparr>
                  | None \<Rightarrow>
                      d\<lparr>schedule := [],
                        day_data.message :=
                          Some (if weekend then txtWeekendRest else txtNonSchoolDay)\<rparr>),
               error = None\<rparr>))"

definition formatDateToISO :: "instant \<Rightarrow> string" where
  "formatDateToISO d =
     natToString (getFullYear d) @ ''-''
       @ padStart 2 (CHR ''0'') (natToString (getMonth d + 1)) @ ''-''
       @ padStart 2 (CHR ''0'') (natToString (getDate d))"

text \<open>\<^verbatim>\<open>date.toTimeString().substring(0, 5)\<close>: the local time as
  \<^verbatim>\<open>HH:MM\<close>.\<close>

definition formatTimeForComparison :: "instant \<Rightarrow> string" where
  "formatTimeForComparison d =
     padStart 2 (CHR ''0'') (natToString (getHours d)) @ '':''
       @ padStart 2 (CHR ''0'') (natToString (getMinutes d))"

text \<open>\<^verbatim>\<open>parseTimeToDate(timeStr)\<close>, read as its \<^verbatim>\<open>getTime()\<close>; \<open>today\<close> is
  the reading of the clock taken inside the function, and \<open>None\<close> is an invalid
  date.\<close>

definition parseTimeToDate :: "instant \<Rightarrow> string \<Rightarrow> int option" where
  "parseTimeToDate today timeStr =
     (let parts = split (CHR '':'') timeStr;
          hours = parseInt (hd parts);
          minutes = (case tl parts of [] \<Rightarrow> None | m # _ \<Rightarrow> parseInt m)
      in case (hours, minutes) of
           (Some h, Some m) \<Rightarrow> Some (setHours today h m)
         | _ \<Rightarrow> None)"

definition isTimeInRange :: "string \<Rightarrow> string \<Rightarrow> string \<Rightarrow> bool" where
  "isTimeInRange current s e = (current \<ge> s \<and> current \<le> e)"

text \<open>\<^verbatim>\<open>formatSeconds\<close> on a non-negative whole number of seconds.\<close>

definition formatSeconds :: "nat \<Rightarrow> string" where
  "formatSeconds seconds =
     (let h = seconds div 3600;
          m = (seconds mod 3600) div 60;
          s = seconds mod 60
      in padStart 2 (CHR ''0'') (natToString h) @ '':''
         @ padStart 2 (CHR ''0'') (natToString m) @ '':''
         @ padStart 2 (CHR ''0'') (natToString s))"

text \<open>A JavaScript number that is a whole number or \<^verbatim>\<open>NaN\<close>.\<close>

datatype number = NaN | Num int

text \<open>The \<^verbatim>\<open>data\<close> of \<^verbatim>\<open>getCurrent\<close>; \<open>None\<close> is a property that is
  \<^verbatim>\<open>null\<close> or that the object does not have.\<close>

record current_data =
  date :: string
  currentTime :: string
  dayCycle :: "nat option"
  status :: string
  currentPeriod :: "schedule_item option"
  nextPeriod :: "schedule_item option"
  remainingSeconds :: "number option"
  remainingFormatted :: "string option"
  message :: "string option"

text \<open>The first loop of \<^verbatim>\<open>getCurrent\<close>: the first item that contains the
  current time.\<close>

fun findCurrent :: "string \<Rightarrow> schedule_item list \<Rightarrow> schedule_item option" where
  "findCurrent t [] = None"
| "findCurrent t (item # rest) =
     (if isTimeInRange t (start item) (end' item) then Some item else findCurrent t rest)"

text \<open>The second loop: the first item that starts after the current time.\<close>

fun findNext :: "string \<Rightarrow> schedule_item list \<Rightarrow> schedule_item option" where
  "findNext t [] = None"
| "findNext t (item # rest) = (if start item > t then Some item else findNext t rest)"

text \<open>Lines 130 to 135; \<open>today\<close> is the reading of the clock inside
  \<^verbatim>\<open>parseTimeToDate\<close>.\<close>

definition remainingOf :: "instant \<Rightarrow> instant \<Rightarrow> schedule_item option \<Rightarrow> number option" where
  "remainingOf now today cur =
     (case cur of
        None \<Rightarrow> None
      | Some item \<Rightarrow>
          (case parseTimeToDate today (end' item) of
             None \<Rightarrow> Some NaN
           | Some endTime \<Rightarrow> Some (Num (max 0 ((endTime - getTime now) div 1000)))))"

text \<open>Line 148: \<^verbatim>\<open>remainingSeconds ? this.formatSeconds(remainingSeconds) : null\<close>;
  \<^verbatim>\<open>null\<close>, \<^verbatim>\<open>NaN\<close> and 0 are falsy.\<close>

definition formattedOf :: "number option \<Rightarrow> string option" where
  "formattedOf r =
     (case r of
        Some (Num n) \<Rightarrow> if n \<noteq> 0 then Some (formatSeconds (nat n)) else None
      | _ \<Rightarrow> None)"

text \<open>
  \<^verbatim>\<open>getCurrent()\<close>. \<open>clk i\<close> is the \<open>i\<close>-th reading of \<^verbatim>\<open>new Date()\<close> made
  during the call: \<open>clk 0\<close> is \<^verbatim>\<open>now\<close>, \<open>clk 1\<close> the time stamp taken inside
  \<^verbatim>\<open>getByDate\<close>, then (only when a current period was found) the reading inside
  \<^verbatim>\<open>parseTimeToDate\<close>, and last the time stamp of the result.
\<close>

definition getCurrent :: "world \<Rightarrow> (nat \<Rightarrow> instant) \<Rightarrow> current_data envelope" where
  "getCurrent w clk =
     (let now = clk 0;
          today = formatDateToISO now;
          curTime = formatTimeForComparison now;
          todayData = getByDate w (clk 1) today;
          noSchool = (\<lambda>msg.
            \<lparr>success = True, timestamp = clk 2,
             data = Some
               \<lparr>date = today, currentTime = curTime, dayCycle = None,
                status = ''no-school'', currentPeriod = None, nextPeriod = None,
                remainingSeconds = None, remainingFormatted = None,
                message = Some msg\<rparr>,
             error = None\<rparr>)
      in case data todayData of
           None \<Rightarrow> noSchool txtNoLessonsToday
         | Some d \<Rightarrow>
             if \<not> success todayData \<or> \<not> isSchoolDay d then
               noSchool (case orNullStr (day_data.message d) of
                           Some m \<Rightarrow> m | None \<Rightarrow> txtNoLessonsToday)
             else
               (let sched = schedule d;
                    cur = findCurrent curTime sched;
                    st = (case cur of Some item \<Rightarrow> type item | None \<Rightarrow> ''free'');
                    nxt = findNext curTime sched;
                    remaining = remainingOf now (clk 2) cur
                in \<lparr>success = True,
                    timestamp = (if cur = None then clk 2 else clk 3),
                    data = Some
                      \<lparr>date = today, currentTime = curTime,
                       dayCycle = day_data.dayCycle d, status = st,
                       currentPeriod = cur, nextPeriod = nxt,
                       remainingSeconds = remaining,
                       remainingFormatted = formattedOf remaining,
                       message = None\<rparr>,
                    error = None\<rparr>))"

section \<open>\<^verbatim>\<open>TimetableApp\<close>: the variant of a date\<close>

definition calculateDayCycle :: "world \<Rightarrow> string \<Rightarrow> nat option" where
  "calculateDayCycle w dateStr = orNullNum (dayRotation w dateStr)"

definition isNonSchoolDay :: "world \<Rightarrow> string \<Rightarrow> bool" where
  "isNonSchoolDay w dateStr =
     (case dateOf w (dateStr @ ''T00:00:00'') of
        None \<Rightarrow> False
      | Some dow \<Rightarrow>
          if dow = 0 \<or> dow = 6 then True
          else orNullNum (dayRotation w dateStr) = None
               \<and> orNullStr (specialDates w dateStr) = None)"

definition getTimetableTypeForDate :: "world \<Rightarrow> string \<Rightarrow> string" where
  "getTimetableTypeForDate w dateStr =
     (case orNullStr (specialDates w dateStr) of
        Some t \<Rightarrow> ''special'' @ t
      | None \<Rightarrow>
          if isNonSchoolDay w dateStr then ''none''
          else (case dateOf w (dateStr @ ''T00:00:00'') of
                  Some dow \<Rightarrow> if dow = 5 then ''specialB'' else ''normal''
                | None \<Rightarrow> ''normal''))"

text \<open>The array \<^verbatim>\<open>allItems\<close> of \<^verbatim>\<open>buildScheduleItems\<close> before
  \<^verbatim>\<open>sort\<close>; \<open>dc\<close> is \<^verbatim>\<open>this.dayCycle\<close>.\<close>

definition pushedDisplayItems :: "world \<Rightarrow> nat option \<Rightarrow> timetable \<Rightarrow> display_item list" where
  "pushedDisplayItems w dc tt =
     (case timetable.preSchoolAssembly tt of
        None \<Rightarrow> []
      | Some a \<Rightarrow>
          [\<lparr>start = start a, end' = end' a, display_item.name = None,
            display_item.type = ''assembly'', display_item.displayName = txtAssembly,
            display_item.subject = ''Pre-School Assembly''\<rparr>])
     @ map (\<lambda>(index, period).
              \<lparr>start = start period, end' = end' period, display_item.name = None,
               display_item.type = ''period'',
               display_item.displayName = txtOrdinal @ natToString (index + 1) @ txtPeriodSuffix,
               display_item.subject = subjectFor w dc (index + 1)\<rparr>)
         (enumerate 0 (timetable.periods tt))
     @ map (\<lambda>breakTime.
              \<lparr>start = start breakTime, end' = end' breakTime,
               display_item.name = Some (name breakTime),
               display_item.type = ''break'', display_item.displayName = name breakTime,
               display_item.subject = name breakTime\<rparr>)
         (timetable.breaks tt)"

definition buildScheduleItems :: "world \<Rightarrow> nat option \<Rightarrow> timetable \<Rightarrow> display_item list" where
  "buildScheduleItems w dc tt =
     sortWith (\<lambda>a b. localeCompare (start a) (start b)) (pushedDisplayItems w dc tt)"

section \<open>A \<^verbatim>\<open>Date\<close> constructor for the examples\<close>

text \<open>
  The date-time string format of the language standard, for the strings
  \<^verbatim>\<open>getByDate\<close> builds: a date \<^verbatim>\<open>YYYY\<close>, \<^verbatim>\<open>YYYY-MM\<close> or
  \<^verbatim>\<open>YYYY-MM-DD\<close> with a four-digit year and a day that exists in the month,
  followed by \<^verbatim>\<open>T00:00:00\<close>, read as local time, so that the weekday is the one
  of the calendar date. Every other string is an invalid date in this instance; a host
  accepts more (years of six digits with a sign, and whatever it makes of a string
  outside the format). The weekday is \<open>(Day(t) + 4) mod 7\<close> for the number of days
  since 1970-01-01.
\<close>

definition isLeapYear :: "int \<Rightarrow> bool" where
  "isLeapYear y = (y mod 4 = 0 \<and> (y mod 100 \<noteq> 0 \<or> y mod 400 = 0))"

definition daysInMonth :: "int \<Rightarrow> int \<Rightarrow> int" where
  "daysInMonth y m =
     (if m = 2 then (if isLeapYear y then 29 else 28)
      else if m = 4 \<or> m = 6 \<or> m = 9 \<or> m = 11 then 30 else 31)"

definition daysFromCivil :: "int \<Rightarrow> int \<Rightarrow> int \<Rightarrow> int" where
  "daysFromCivil y m d =
     (let y1 = (if m \<le> 2 then y - 1 else y);
          era = y1 div 400;
          yoe = y1 - era * 400;
          doy = (153 * (if m > 2 then m - 3 else m + 9) + 2) div 5 + d - 1;
          doe = yoe * 365 + yoe div 4 - yoe div 100 + doy
      in era * 146097 + doe - 719468)"

definition weekDayOf :: "string \<Rightarrow> string \<Rightarrow> string \<Rightarrow> nat option" where
  "weekDayOf ys ms ds =
     (if length ys = 4 \<and> list_all isDigit ys \<and> length ms = 2 \<and> list_all isDigit ms
         \<and> length ds = 2 \<and> list_all isDigit ds
      then
        (let y = int (decimalValue ys); m = int (decimalValue ms); d = int (decimalValue ds)
         in if 1 \<le> m \<and> m \<le> 12 \<and> 1 \<le> d \<and> d \<le> daysInMonth y m
            then Some (nat ((daysFromCivil y m d + 4) mod 7))
            else None)
      else None)"

definition isoDateOf :: "string \<Rightarrow> nat option" where
  "isoDateOf s =
     (if length s < 9 \<or> drop (length s - 9) s \<noteq> ''T00:00:00'' then None
      else (case split (CHR ''-'') (take (length s - 9) s) of
              [y] \<Rightarrow> weekDayOf y ''01'' ''01''
            | [y, m] \<Rightarrow> weekDayOf y m ''01''
            | [y, m, d] \<Rightarrow> weekDayOf y m d
            | _ \<Rightarrow> None))"

section \<open>Well-formed catalog entries\<close>

text \<open>A time of the catalog: \<^verbatim>\<open>HH:MM\<close>, zero-padded, 24-hour.\<close>

definition validTime :: "string \<Rightarrow> bool" where
  "validTime s =
     (case s of
        [a, b, c, d, e] \<Rightarrow>
          isDigit a \<and> isDigit b \<and> c = CHR '':'' \<and> isDigit d \<and> isDigit e
          \<and> decimalValue [a, b] < 24 \<and> decimalValue [d, e] < 60
      | _ \<Rightarrow> False)"

definition validSpan :: "'a span_scheme \<Rightarrow> bool" where
  "validSpan x = (validTime (start x) \<and> validTime (end' x) \<and> start x < end' x)"

definition validTimetable :: "timetable \<Rightarrow> bool" where
  "validTimetable tt =
     ((case timetable.preSchoolAssembly tt of None \<Rightarrow> True | Some a \<Rightarrow> validSpan a)
      \<and> list_all validSpan (timetable.periods tt)
      \<and> list_all validSpan (timetable.breaks tt))"


section \<open>Notions of the specification\<close>

text \<open>Two readings of the clock fall on the same local day: they have the same local
  midnight.\<close>

definition sameLocalDay :: "instant \<Rightarrow> instant \<Rightarrow> bool" where
  "sameLocalDay a b = (getTime a - msOfDay a = getTime b - msOfDay b)"

text \<open>
  The end of a slot as a datetime of today (section 4.5 of the specification): the local
  midnight of the reading \<open>today\<close> plus the hours and minutes of the \<^verbatim>\<open>HH:MM\<close>
  string, in milliseconds since the epoch.
\<close>

definition endAsDate :: "instant \<Rightarrow> string \<Rightarrow> int" where
  "endAsDate today s =
     getTime today - msOfDay today
       + (int (decimalValue (take 2 s)) * 60 + int (decimalValue (drop 3 s))) * 60000"

section \<open>An example configuration\<close>

definition exTimetable :: timetable where
  "exTimetable =
     \<lparr>timetable.preSchoolAssembly = Some \<lparr>start = ''08:20'', end' = ''08:40''\<rparr>,
      timetable.periods =
        [\<lparr>start = ''08:40'', end' = ''09:20''\<rparr>, \<lparr>start = ''09:20'', end' = ''10:00''\<rparr>,
         \<lparr>start = ''10:20'', end' = ''11:00''\<rparr>],
      timetable.breaks = [\<lparr>start = ''10:00'', end' = ''10:20'', name = ''Recess''\<rparr>]\<rparr>"

text \<open>A catalog entry in which a period and a break start at the same time.\<close>

definition exTieTimetable :: timetable where
  "exTieTimetable =
     \<lparr>timetable.preSchoolAssembly = None,
      timetable.periods =
        [\<lparr>start = ''09:00'', end' = ''09:40''\<rparr>, \<lparr>start = ''08:00'', end' = ''08:40''\<rparr>],
      timetable.breaks = [\<lparr>start = ''09:00'', end' = ''09:10'', name = ''Recess''\<rparr>]\<rparr>"

text \<open>2025-12-15 is a Monday, 2025-12-19 a Friday and 2025-12-20 a Saturday.\<close>

definition exWorld :: world where
  "exWorld =
     \<lparr>timetableData = [''normal'' \<mapsto> exTimetable, ''specialA'' \<mapsto> exTimetable,
                        ''specialB'' \<mapsto> exTimetable],
      subjectSchedule = [6 \<mapsto> [1 \<mapsto> ''ICT'', 2 \<mapsto> ''MATH'']],
      dayRotation = [''2025-12-15'' \<mapsto> 6, ''2025-12-19'' \<mapsto> 2, ''2025-12-20'' \<mapsto> 3],
      specialDates = Map.empty,
      dateOf = isoDateOf\<rparr>"

definition exWorldOverride :: world where
  "exWorldOverride = exWorld\<lparr>specialDates := [''2025-12-20'' \<mapsto> ''A'']\<rparr>"

definition exWorldNoCycle :: world where
  "exWorldNoCycle = exWorld\<lparr>dayRotation := Map.empty\<rparr>"

definition exStamp :: instant where
  "exStamp =
     \<lparr>getFullYear = 2025, getMonth = 11, getDate = 14, getHours = 18, getMinutes = 30,
      getSeconds = 0, getMilliseconds = 0, getTime = 1765708200000\<rparr>"

text \<open>Readings of the clock on 2025-12-15 (local midnight 1765728000000); the \<open>i\<close>-th
  reading of \<open>exClock h m s ms\<close> is \<open>i\<close> milliseconds after \<open>h:m:s.ms\<close>.\<close>

definition exInstant :: "nat \<Rightarrow> nat \<Rightarrow> nat \<Rightarrow> nat \<Rightarrow> instant" where
  "exInstant h m s ms =
     \<lparr>getFullYear = 2025, getMonth = 11, getDate = 15, getHours = h, getMinutes = m,
      getSeconds = s, getMilliseconds = ms,
      getTime = 1765728000000 + ((int h * 60 + int m) * 60 + int s) * 1000 + int ms\<rparr>"

definition exClock :: "nat \<Rightarrow> nat \<Rightarrow> nat \<Rightarrow> nat \<Rightarrow> nat \<Rightarrow> instant" where
  "exClock h m s ms i = exInstant h m s (ms + i)"

text \<open>
  A clock that changes day during a call: the first reading is \<open>h:m:s.ms\<close> on
  2025-12-15 and every later reading is one day after the reading of \<open>exClock\<close>.
\<close>

definition exClockJump :: "nat \<Rightarrow> nat \<Rightarrow> nat \<Rightarrow> nat \<Rightarrow> nat \<Rightarrow> instant" where
  "exClockJump h m s ms i =
     (if i = 0 then exInstant h m s ms
      else (exInstant h m s (ms + i))
             \<lparr>getDate := 16, getTime := getTime (exInstant h m s (ms + i)) + 86400000\<rparr>)"

text \<open>The first and the second period of the example.\<close>

definition exP1 :: schedule_item where
  "exP1 = periodItem exWorld (Some 6) 0 \<lparr>start = ''08:40'', end' = ''09:20''\<rparr>"

definition exP2 :: schedule_item where
  "exP2 = periodItem exWorld (Some 6) 1 \<lparr>start = ''09:20'', end' = ''10:00''\<rparr>"


section \<open>Evaluation rules for the examples\<close>

lemmas iso_eval = isoDateOf_def weekDayOf_def isDigit_def decimalValue_def digitVal_def
  daysInMonth_def daysFromCivil_def isLeapYear_def

lemmas valid_eval = validTimetable_def validSpan_def validTime_def isDigit_def
  decimalValue_def digitVal_def

section \<open>Which variant governs a date\<close>

lemma getByDate_type:
  "map_option timetableType (data (getByDate w ts dateStr)) =
     (case dateOf w (dateStr @ ''T00:00:00'') of None \<Rightarrow> None
      | Some dow \<Rightarrow> Some (resolveType dow (orNullNum (dayRotation w dateStr))
                           (orNullStr (specialDates w dateStr))))"
  by (simp add: getByDate_def errorResponse_def Let_def split: option.splits)

text \<open>
  C1. A date with an entry in the table of special dates resolves to
  \<^verbatim>\<open>special\<close> followed by the tag of that entry, whatever the weekday of the
  date and whether or not it has a day-cycle entry: \<open>getTimetableTypeForDate\<close> returns it for
  every such date string, and \<open>getByDate\<close> reports it as \<open>timetableType\<close> for every
  such date string that the \<^verbatim>\<open>Date\<close> constructor accepts (for one it rejects there is
  no day record). A tag is a non-empty string. The theorem has no assumption on the
  weekday or on \<open>dayRotation\<close>, so the override is the first rule and wins over the others.
\<close>

theorem override_wins:
  assumes "specialDates w dateStr = Some tag" and "tag \<noteq> []"
  shows "getTimetableTypeForDate w dateStr = ''special'' @ tag \<and>
         map_option timetableType (data (getByDate w ts dateStr)) =
           (if dateOf w (dateStr @ ''T00:00:00'') = None then None
            else Some (''special'' @ tag))"
  using assms
  by (simp add: getByDate_type getTimetableTypeForDate_def orNullStr_def resolveType_def
      split: option.splits)

text \<open>The Saturday 2025-12-20, with day cycle 3 and the override \<^verbatim>\<open>A\<close>.\<close>

theorem override_wins_witness:
  "isoDateOf ''2025-12-20T00:00:00'' = Some 6 \<and>
   dayRotation exWorldOverride ''2025-12-20'' = Some 3 \<and>
   getTimetableTypeForDate exWorldOverride ''2025-12-20'' = ''specialA'' \<and>
   map_option timetableType (data (getByDate exWorldOverride exStamp ''2025-12-20''))
     = Some ''specialA''"
  using override_wins [of exWorldOverride "''2025-12-20''" "''A''" exStamp]
  by (simp add: exWorldOverride_def exWorld_def iso_eval)

text \<open>
  C2, as stated, fails: a Friday that has no override and is not a weekend day, but has no
  day-cycle entry either, resolves to \<^verbatim>\<open>none\<close>, not to \<^verbatim>\<open>specialB\<close>. The
  Friday 2025-12-19 in a configuration whose day-rotation table is empty:
\<close>

theorem friday_without_cycle_counterexample:
  "isoDateOf ''2025-12-19T00:00:00'' = Some 5 \<and>
   specialDates exWorldNoCycle ''2025-12-19'' = None \<and>
   getTimetableTypeForDate exWorldNoCycle ''2025-12-19'' = ''none'' \<and>
   map_option timetableType (data (getByDate exWorldNoCycle exStamp ''2025-12-19''))
     = Some ''none''"
  by (simp add: getByDate_type getTimetableTypeForDate_def isNonSchoolDay_def
      exWorldNoCycle_def exWorld_def iso_eval orNullStr_def orNullNum_def resolveType_def)

text \<open>
  C2, amended. A Friday with no entry in the table of special dates resolves to
  \<^verbatim>\<open>specialB\<close> when it has a day-cycle entry (a cycle number other than 0), and to
  \<^verbatim>\<open>none\<close> when it has no day-cycle entry, in \<open>getTimetableTypeForDate\<close> and in
  the \<open>timetableType\<close> of \<open>getByDate\<close>.
\<close>

theorem friday_variant:
  assumes "dateOf w (dateStr @ ''T00:00:00'') = Some 5"
    and "specialDates w dateStr = None"
  shows "getTimetableTypeForDate w dateStr =
           (if dayRotation w dateStr = None \<or> dayRotation w dateStr = Some 0
            then ''none'' else ''specialB'')
       \<and> map_option timetableType (data (getByDate w ts dateStr)) =
           Some (if dayRotation w dateStr = None \<or> dayRotation w dateStr = Some 0
                 then ''none'' else ''specialB'')"
  using assms
  by (auto simp add: getByDate_type getTimetableTypeForDate_def isNonSchoolDay_def
      orNullStr_def orNullNum_def resolveType_def split: option.splits)

text \<open>The Friday 2025-12-19 with the day cycle 2, and with no day-cycle entry.\<close>

theorem friday_variant_witness:
  "getTimetableTypeForDate exWorld ''2025-12-19'' = ''specialB'' \<and>
   map_option timetableType (data (getByDate exWorld exStamp ''2025-12-19'')) = Some ''specialB'' \<and>
   getTimetableTypeForDate exWorldNoCycle ''2025-12-19'' = ''none'' \<and>
   map_option timetableType (data (getByDate exWorldNoCycle exStamp ''2025-12-19''))
     = Some ''none''"
  using friday_variant [of exWorld "''2025-12-19''" exStamp]
    friday_variant [of exWorldNoCycle "''2025-12-19''" exStamp]
  by (simp add: exWorld_def exWorldNoCycle_def iso_eval)

text \<open>
  C3, as stated, fails: a Saturday that carries an override resolves to the override's
  variant, not to \<^verbatim>\<open>none\<close>. The Saturday 2025-12-20 with the override \<^verbatim>\<open>A\<close>:
\<close>

theorem weekend_override_counterexample:
  "isoDateOf ''2025-12-20T00:00:00'' = Some 6 \<and>
   getTimetableTypeForDate exWorldOverride ''2025-12-20'' = ''specialA'' \<and>
   map_option timetableType (data (getByDate exWorldOverride exStamp ''2025-12-20''))
     = Some ''specialA'' \<and> ''specialA'' \<noteq> ''none''"
  by (simp add: getByDate_type getTimetableTypeForDate_def
      exWorldOverride_def exWorld_def iso_eval orNullStr_def orNullNum_def resolveType_def)

text \<open>
  C3, amended. A date that falls on a Saturday or a Sunday and has no entry in the table
  of special dates resolves to \<^verbatim>\<open>none\<close>, whatever its day-cycle entry.
\<close>

theorem weekend_none:
  assumes "dateOf w (dateStr @ ''T00:00:00'') = Some dow" and "dow = 0 \<or> dow = 6"
    and "specialDates w dateStr = None"
  shows "getTimetableTypeForDate w dateStr = ''none'' \<and>
         map_option timetableType (data (getByDate w ts dateStr)) = Some ''none''"
  using assms
  by (auto simp add: getByDate_type getTimetableTypeForDate_def isNonSchoolDay_def
      orNullStr_def resolveType_def)

text \<open>The Saturday 2025-12-20, which has the day cycle 3.\<close>

theorem weekend_none_witness:
  "dayRotation exWorld ''2025-12-20'' = Some 3 \<and>
   getTimetableTypeForDate exWorld ''2025-12-20'' = ''none'' \<and>
   map_option timetableType (data (getByDate exWorld exStamp ''2025-12-20'')) = Some ''none''"
  using weekend_none [of exWorld "''2025-12-20''" 6 exStamp]
  by (simp add: exWorld_def iso_eval)

section \<open>The result of \<^verbatim>\<open>getByDate\<close>\<close>

text \<open>What \<open>getByDate\<close> returns when the \<^verbatim>\<open>Date\<close> constructor rejects the
  string: the error envelope, with no day record.\<close>

lemma getByDate_invalid:
  "dateOf w (dateStr @ ''T00:00:00'') = None \<Longrightarrow>
   getByDate w ts dateStr =
     \<lparr>success = False, timestamp = ts, data = None,
      error = Some \<lparr>error_info.message = ''Invalid date format. Use YYYY-MM-DD''\<rparr>\<rparr>"
  by (simp add: getByDate_def errorResponse_def)

lemma getByDate_valid:
  "dateOf w (dateStr @ ''T00:00:00'') \<noteq> None \<Longrightarrow>
   success (getByDate w ts dateStr) \<and> error (getByDate w ts dateStr) = None
     \<and> map_option day_data.date (data (getByDate w ts dateStr)) = Some dateStr"
  by (auto simp add: getByDate_def Let_def split: option.splits)

text \<open>
  C8. Every string that is not a date in the form \<^verbatim>\<open>YYYY-MM-DD\<close> is to give the
  error envelope. The guard of \<open>getByDate\<close> is the validity of
  \<^verbatim>\<open>new Date(dateStr + 'T00:00:00')\<close>, and the string \<^verbatim>\<open>2025-12\<close>, which has no
  day, passes it (\<^verbatim>\<open>2025-12T00:00:00\<close> is in the date-time format of the language,
  the first of December): the result is a day record for the date \<^verbatim>\<open>2025-12\<close>
  with \<open>success\<close> true and no error.
\<close>

theorem month_only_date_accepted:
  "isoDateOf ''2025-12T00:00:00'' = Some 1 \<and>
   success (getByDate exWorld exStamp ''2025-12'') \<and>
   error (getByDate exWorld exStamp ''2025-12'') = None \<and>
   map_option day_data.date (data (getByDate exWorld exStamp ''2025-12'')) = Some ''2025-12'' \<and>
   map_option schedule (data (getByDate exWorld exStamp ''2025-12'')) = Some []"
  by (simp add: getByDate_def exWorld_def iso_eval orNullStr_def orNullNum_def
      resolveType_def Let_def)



section \<open>\<^verbatim>\<open>buildSchedule\<close>\<close>

lemma localeCompare_le: "localeCompare a b \<le> 0 \<longleftrightarrow> a \<le> b"
  by (auto simp add: localeCompare_def)

lemma insertSorted_insort_key:
  "insertSorted (\<lambda>a b. localeCompare (f a) (f b)) x xs = insort_key f x xs"
  by (induction xs) (simp_all add: localeCompare_le)

text \<open>Sorting with a comparator that compares a string key by \<open>localeCompare\<close> is the
  stable sort by that key.\<close>

lemma sortWith_sort_key:
  "sortWith (\<lambda>a b. localeCompare (f a) (f b)) xs = sort_key f xs"
  by (induction xs) (simp_all add: insertSorted_insort_key)

lemma buildSchedule_sort_key:
  "buildSchedule w tt dc = sort_key start (pushedItems w tt dc)"
  by (simp add: buildSchedule_def sortWith_sort_key)

lemma map_periodItem_number:
  "map (\<lambda>(i, p). periodNumber (periodItem w dc i p)) (enumerate n ps)
     = map Some [Suc n..<Suc (n + length ps)]"
proof (induction ps arbitrary: n)
  case Nil
  show ?case by simp
next
  case (Cons p ps)
  have "Suc n < Suc (n + length (p # ps))" by simp
  then have "[Suc n..<Suc (n + length (p # ps))]
      = Suc n # [Suc (Suc n)..<Suc (n + length (p # ps))]"
    by (rule upt_conv_Cons)
  moreover have "Suc (n + length (p # ps)) = Suc (Suc n + length ps)" by simp
  ultimately have "[Suc n..<Suc (n + length (p # ps))]
      = Suc n # [Suc (Suc n)..<Suc (Suc n + length ps)]"
    by simp
  moreover have "map (\<lambda>(i, p). periodNumber (periodItem w dc i p)) (enumerate n (p # ps))
      = Some (Suc n) # map (\<lambda>(i, p). periodNumber (periodItem w dc i p)) (enumerate (Suc n) ps)"
    by (simp add: periodItem_def Let_def)
  ultimately show ?case using Cons [of "Suc n"] by simp
qed

lemma map_periodItem_type:
  "map (\<lambda>(i, p). type (periodItem w dc i p)) (enumerate n ps) = replicate (length ps) ''period''"
  by (induction ps arbitrary: n) (simp_all add: periodItem_def Let_def)

lemma map_periodItem_span:
  "map (\<lambda>(i, p). (start (periodItem w dc i p), end' (periodItem w dc i p))) (enumerate n ps)
     = map (\<lambda>p. (start p, end' p)) ps"
  by (induction ps arbitrary: n) (simp_all add: periodItem_def Let_def)

lemma pushedItems_types:
  "map type (pushedItems w tt dc) =
     (case timetable.preSchoolAssembly tt of None \<Rightarrow> [] | Some a \<Rightarrow> [''assembly''])
     @ replicate (length (timetable.periods tt)) ''period''
     @ replicate (length (timetable.breaks tt)) ''break''"
proof -
  have b: "map (type \<circ> breakItem) bs = replicate (length bs) ''break''" for bs
    by (induction bs) (simp_all add: breakItem_def)
  have p: "map (type \<circ> (\<lambda>(i, p). periodItem w dc i p)) (enumerate 0 ps)
             = replicate (length ps) ''period''" for ps
    using map_periodItem_type [of w dc 0 ps] by (simp add: comp_def case_prod_unfold)
  show ?thesis
    by (simp add: pushedItems_def b p assemblyItem_def split: option.splits)
qed

lemma pushedItems_numbers:
  "map periodNumber (pushedItems w tt dc) =
     (case timetable.preSchoolAssembly tt of None \<Rightarrow> [] | Some a \<Rightarrow> [None])
     @ map Some [1..<Suc (length (timetable.periods tt))]
     @ replicate (length (timetable.breaks tt)) None"
proof -
  have b: "map (periodNumber \<circ> breakItem) bs = replicate (length bs) None" for bs
    by (induction bs) (simp_all add: breakItem_def)
  have p: "map (periodNumber \<circ> (\<lambda>(i, p). periodItem w dc i p)) (enumerate 0 ps)
             = map Some [1..<Suc (length ps)]" for ps
    using map_periodItem_number [of w dc 0 ps] by (simp add: comp_def case_prod_unfold)
  show ?thesis
    by (simp add: pushedItems_def b p assemblyItem_def split: option.splits)
qed

lemma pushedItems_spans:
  "map (\<lambda>x. (start x, end' x)) (pushedItems w tt dc) =
     (case timetable.preSchoolAssembly tt of None \<Rightarrow> [] | Some a \<Rightarrow> [(start a, end' a)])
     @ map (\<lambda>p. (start p, end' p)) (timetable.periods tt)
     @ map (\<lambda>b. (start b, end' b)) (timetable.breaks tt)"
proof -
  have b: "map ((\<lambda>x. (start x, end' x)) \<circ> breakItem) bs = map (\<lambda>b. (start b, end' b)) bs"
    for bs
    by (induction bs) (simp_all add: breakItem_def)
  have p: "map ((\<lambda>x. (start x, end' x)) \<circ> (\<lambda>(i, p). periodItem w dc i p)) (enumerate 0 ps)
             = map (\<lambda>p. (start p, end' p)) ps" for ps
    using map_periodItem_span [of w dc 0 ps] by (simp add: comp_def case_prod_unfold)
  show ?thesis
    by (simp add: pushedItems_def b p assemblyItem_def split: option.splits)
qed

text \<open>The schedule grid of \<^verbatim>\<open>TimetableApp\<close> is built and sorted the same way.\<close>

lemma buildScheduleItems_stable_sorted:
  "map (\<lambda>x. (display_item.type x, start x, end' x)) (pushedDisplayItems w dc tt) =
     (case timetable.preSchoolAssembly tt of None \<Rightarrow> []
      | Some a \<Rightarrow> [(''assembly'', start a, end' a)])
     @ map (\<lambda>p. (''period'', start p, end' p)) (timetable.periods tt)
     @ map (\<lambda>b. (''break'', start b, end' b)) (timetable.breaks tt)
   \<and> sorted (map start (buildScheduleItems w dc tt))
   \<and> (\<forall>k. filter (\<lambda>x. start x = k) (buildScheduleItems w dc tt)
            = filter (\<lambda>x. start x = k) (pushedDisplayItems w dc tt))"
proof -
  have p: "map (\<lambda>x. (''period'', start (snd x), end' (snd x))) (enumerate n ps)
           = map (\<lambda>p. (''period'', start p, end' p)) ps" for n and ps :: "span list"
    by (induction ps arbitrary: n) simp_all
  have "map (\<lambda>x. (display_item.type x, start x, end' x)) (pushedDisplayItems w dc tt) =
     (case timetable.preSchoolAssembly tt of None \<Rightarrow> []
      | Some a \<Rightarrow> [(''assembly'', start a, end' a)])
     @ map (\<lambda>p. (''period'', start p, end' p)) (timetable.periods tt)
     @ map (\<lambda>b. (''break'', start b, end' b)) (timetable.breaks tt)"
    by (simp add: pushedDisplayItems_def comp_def case_prod_unfold p split: option.splits)
  then show ?thesis
    by (simp add: buildScheduleItems_def sortWith_sort_key sort_key_stable)
qed

text \<open>
  C6. For a valid catalog entry and any day cycle, the items \<open>buildSchedule\<close> pushes
  are the assembly item (if the entry has an assembly), then one item per period,
  numbered 1 to N in the order of the entry, then one item per break, each with the
  start and end of its source. The result is a permutation of the pushed items, sorted
  by start time ascending in the order of \<^verbatim>\<open>HH:MM\<close> strings, and stable: the items
  with a given start time appear in the result in the order in which they were pushed,
  so the assembly before periods before breaks.
\<close>

theorem buildSchedule_stable_sorted:
  assumes "validTimetable tt"
  shows "map type (pushedItems w tt dc) =
           (case timetable.preSchoolAssembly tt of None \<Rightarrow> [] | Some a \<Rightarrow> [''assembly''])
           @ replicate (length (timetable.periods tt)) ''period''
           @ replicate (length (timetable.breaks tt)) ''break''
       \<and> map periodNumber (pushedItems w tt dc) =
           (case timetable.preSchoolAssembly tt of None \<Rightarrow> [] | Some a \<Rightarrow> [None])
           @ map Some [1..<Suc (length (timetable.periods tt))]
           @ replicate (length (timetable.breaks tt)) None
       \<and> map (\<lambda>x. (start x, end' x)) (pushedItems w tt dc) =
           (case timetable.preSchoolAssembly tt of None \<Rightarrow> [] | Some a \<Rightarrow> [(start a, end' a)])
           @ map (\<lambda>p. (start p, end' p)) (timetable.periods tt)
           @ map (\<lambda>b. (start b, end' b)) (timetable.breaks tt)
       \<and> mset (buildSchedule w tt dc) = mset (pushedItems w tt dc)
       \<and> sorted (map start (buildSchedule w tt dc))
       \<and> (\<forall>k. filter (\<lambda>x. start x = k) (buildSchedule w tt dc)
                = filter (\<lambda>x. start x = k) (pushedItems w tt dc))"
  by (simp add: pushedItems_types pushedItems_numbers pushedItems_spans
      buildSchedule_sort_key sort_key_stable)

text \<open>An entry whose first period and whose break both start at 09:00, after the second
  period: the period stays before the break.\<close>

theorem buildSchedule_stable_sorted_witness:
  "validTimetable exTieTimetable \<and>
   map (\<lambda>x. (displayName x, start x)) (buildSchedule exWorld exTieTimetable (Some 6))
     = [(''P2'', ''08:00''), (''P1'', ''09:00''), (''Recess'', ''09:00'')]"
proof -
  have v: "validTimetable exTieTimetable"
    by (simp add: exTieTimetable_def valid_eval)
  have "map (\<lambda>x. (displayName x, start x)) (buildSchedule exWorld exTieTimetable (Some 6))
     = [(''P2'', ''08:00''), (''P1'', ''09:00''), (''Recess'', ''09:00'')]"
    by (simp add: buildSchedule_def pushedItems_def exTieTimetable_def enumerate_eq_zip
        periodItem_def breakItem_def localeCompare_def natToString.simps digitChar_def Let_def)
  with v buildSchedule_stable_sorted [OF v, of exWorld "Some 6"] show ?thesis by simp
qed

text \<open>Of the world, \<open>buildSchedule\<close> reads the subject table only.\<close>

lemma buildSchedule_reads_subjects:
  assumes "subjectSchedule w1 = subjectSchedule w2"
  shows "buildSchedule w1 tt dc = buildSchedule w2 tt dc"
proof -
  have "subjectFor w1 dc n = subjectFor w2 dc n" for n
    using assms by (cases dc) (simp_all add: subjectFor_def)
  then have "periodItem w1 dc i p = periodItem w2 dc i p" for i p
    by (simp add: periodItem_def)
  then show ?thesis
    by (simp add: buildSchedule_def pushedItems_def)
qed

section \<open>Numbers and times as strings\<close>

lemma digitChar_digit: "k < 10 \<Longrightarrow> isDigit (digitChar k) \<and> digitVal (digitChar k) = k"
proof -
  assume "k < 10"
  then have "k \<in> {0, 1, 2, 3, 4, 5, 6, 7, 8, 9}" by auto
  then show ?thesis
    by (auto simp add: digitChar_def isDigit_def digitVal_def)
qed

lemma natToString_digits: "list_all isDigit (natToString n)"
proof (induction n rule: natToString.induct)
  case (1 n)
  then show ?case
    by (subst natToString.simps) (simp add: digitChar_digit)
qed

lemma natToString_nonempty: "natToString n \<noteq> []"
  by (subst natToString.simps) simp

lemma decimalValue_append:
  "decimalValue (xs @ ys) = foldl (\<lambda>acc c. 10 * acc + digitVal c) (decimalValue xs) ys"
  by (simp add: decimalValue_def)

lemma decimalValue_natToString: "decimalValue (natToString n) = n"
proof (induction n rule: natToString.induct)
  case (1 n)
  show ?case
  proof (cases "n < 10")
    case True
    then show ?thesis
      by (subst natToString.simps) (simp add: decimalValue_def digitChar_digit)
  next
    case False
    with 1 have "decimalValue (natToString (n div 10)) = n div 10" by simp
    with False show ?thesis
      by (subst natToString.simps) (simp add: decimalValue_append digitChar_digit)
  qed
qed

lemma decimalValue_zeros: "decimalValue (replicate k (CHR ''0'')) = 0"
  by (induction k) (simp_all add: decimalValue_def digitVal_def)

lemma decimalValue_padStart: "decimalValue (padStart k (CHR ''0'') s) = decimalValue s"
  by (simp add: padStart_def decimalValue_append decimalValue_zeros) (simp add: decimalValue_def)

lemma padStart_digits: "list_all isDigit s \<Longrightarrow> list_all isDigit (padStart k (CHR ''0'') s)"
  by (auto simp add: padStart_def list_all_iff isDigit_def)

lemma padStart_nonempty: "s \<noteq> [] \<Longrightarrow> padStart k c s \<noteq> []"
  by (simp add: padStart_def)

lemma isDigit_plain:
  "isDigit c \<Longrightarrow> \<not> isWhiteSpace c \<and> c \<noteq> CHR ''-'' \<and> c \<noteq> CHR ''+'' \<and> c \<noteq> CHR '':''"
  by (auto simp add: isDigit_def isWhiteSpace_def)

lemma parseInt_digits:
  assumes "s \<noteq> []" and "list_all isDigit s"
  shows "parseInt s = Some (int (decimalValue s))"
proof -
  from assms have c: "isDigit (hd s)" by (cases s) auto
  have tw: "takeWhile isDigit s = s"
    using assms by (simp add: list_all_iff)
  from assms c have dw: "dropWhile isWhiteSpace s = s"
    by (cases s) (simp_all add: isDigit_plain)
  from assms(1) isDigit_plain [OF c] show ?thesis
    by (simp add: parseInt_def Let_def tw dw)
qed

lemma split_no_sep: "c \<notin> set s \<Longrightarrow> split c s = [s]"
  by (induction s) auto

lemma split_at_sep: "c \<notin> set a \<Longrightarrow> split c (a @ c # b) = a # split c b"
  by (induction a) auto

lemma digits_no_colon: "list_all isDigit s \<Longrightarrow> CHR '':'' \<notin> set s"
  using isDigit_plain by (auto simp add: list_all_iff)

lemma parseTimeToDate_digits:
  assumes "h \<noteq> []" "list_all isDigit h" "m \<noteq> []" "list_all isDigit m"
  shows "parseTimeToDate today (h @ '':'' @ m)
           = Some (setHours today (int (decimalValue h)) (int (decimalValue m)))"
proof -
  have "split (CHR '':'') (h @ CHR '':'' # m) = [h, m]"
    using assms by (simp add: split_at_sep split_no_sep digits_no_colon)
  then show ?thesis
    using assms by (simp add: parseTimeToDate_def parseInt_digits)
qed

lemma parseTimeToDate_format:
  "parseTimeToDate today (formatTimeForComparison t)
     = Some (setHours today (int (getHours t)) (int (getMinutes t)))"
  using parseTimeToDate_digits [of "padStart 2 (CHR ''0'') (natToString (getHours t))"
      "padStart 2 (CHR ''0'') (natToString (getMinutes t))" today]
  by (simp add: formatTimeForComparison_def padStart_digits padStart_nonempty
      natToString_digits natToString_nonempty decimalValue_padStart decimalValue_natToString)

lemma validTime_parts:
  assumes "validTime s"
  shows "s = take 2 s @ '':'' @ drop 3 s \<and> length (take 2 s) = 2 \<and> length (drop 3 s) = 2
         \<and> list_all isDigit (take 2 s) \<and> list_all isDigit (drop 3 s)"
proof -
  from assms obtain a b c d e where s: "s = [a, b, c, d, e]"
    by (auto simp add: validTime_def split: list.splits)
  with assms show ?thesis by (simp add: validTime_def)
qed

section \<open>\<^verbatim>\<open>getCurrent\<close>\<close>

lemma getByDate_data_success:
  "data (getByDate w ts s) = Some d \<Longrightarrow> success (getByDate w ts s)"
  by (auto simp add: getByDate_def errorResponse_def Let_def split: option.splits)

lemma getByDate_schedule:
  "data (getByDate w ts s) = Some d \<Longrightarrow>
   schedule d = [] \<or> (\<exists>t. schedule d = buildSchedule w t (day_data.dayCycle d))"
  by (auto simp add: getByDate_def errorResponse_def Let_def split: option.splits if_splits)

lemma buildSchedule_types:
  "x \<in> set (buildSchedule w tt dc) \<Longrightarrow> type x \<in> {''assembly'', ''period'', ''break''}"
proof -
  assume "x \<in> set (buildSchedule w tt dc)"
  then have "x \<in> set (pushedItems w tt dc)"
    by (simp add: buildSchedule_sort_key)
  then have "type x \<in> set (map type (pushedItems w tt dc))" by simp
  then show ?thesis
    unfolding pushedItems_types by (auto split: option.splits)
qed



lemma findCurrent_mem: "findCurrent t xs = Some x \<Longrightarrow> x \<in> set xs"
  by (induction xs) (auto split: if_splits)

lemma getCurrent_located:
  assumes "data (getByDate w (clk 1) (formatDateToISO (clk 0))) = Some d" and "isSchoolDay d"
  shows "data (getCurrent w clk) =
     Some \<lparr>date = formatDateToISO (clk 0), currentTime = formatTimeForComparison (clk 0),
           dayCycle = day_data.dayCycle d,
           status = (case findCurrent (formatTimeForComparison (clk 0)) (schedule d) of
                       Some item \<Rightarrow> type item | None \<Rightarrow> ''free''),
           currentPeriod = findCurrent (formatTimeForComparison (clk 0)) (schedule d),
           nextPeriod = findNext (formatTimeForComparison (clk 0)) (schedule d),
           remainingSeconds = remainingOf (clk 0) (clk 2)
             (findCurrent (formatTimeForComparison (clk 0)) (schedule d)),
           remainingFormatted = formattedOf (remainingOf (clk 0) (clk 2)
             (findCurrent (formatTimeForComparison (clk 0)) (schedule d))),
           message = None\<rparr>"
  using assms getByDate_data_success [OF assms(1)]
  by (simp add: getCurrent_def Let_def)

lemma getCurrent_no_school:
  assumes "\<forall>d. data (getByDate w (clk 1) (formatDateToISO (clk 0))) = Some d \<longrightarrow> \<not> isSchoolDay d"
  shows "\<exists>c. data (getCurrent w clk) = Some c \<and> status c = ''no-school''
            \<and> currentPeriod c = None \<and> remainingSeconds c = None \<and> remainingFormatted c = None"
  using assms
  by (cases "data (getByDate w (clk 1) (formatDateToISO (clk 0)))")
     (simp_all add: getCurrent_def Let_def)

lemma getCurrent_cases:
  assumes "data (getCurrent w clk) = Some c"
  shows "(status c = ''no-school'' \<and> currentPeriod c = None \<and> remainingSeconds c = None
            \<and> remainingFormatted c = None)
       \<or> (\<exists>d. data (getByDate w (clk 1) (formatDateToISO (clk 0))) = Some d \<and> isSchoolDay d
            \<and> currentTime c = formatTimeForComparison (clk 0)
            \<and> currentPeriod c = findCurrent (formatTimeForComparison (clk 0)) (schedule d)
            \<and> status c = (case currentPeriod c of Some item \<Rightarrow> type item | None \<Rightarrow> ''free'')
            \<and> remainingSeconds c = remainingOf (clk 0) (clk 2) (currentPeriod c)
            \<and> remainingFormatted c = formattedOf (remainingSeconds c))"
proof (cases "\<exists>d. data (getByDate w (clk 1) (formatDateToISO (clk 0))) = Some d \<and> isSchoolDay d")
  case True
  then obtain d where d: "data (getByDate w (clk 1) (formatDateToISO (clk 0))) = Some d"
    "isSchoolDay d" by blast
  from getCurrent_located [OF d] assms d show ?thesis by auto
next
  case False
  then have "\<forall>d. data (getByDate w (clk 1) (formatDateToISO (clk 0))) = Some d \<longrightarrow> \<not> isSchoolDay d"
    by blast
  from getCurrent_no_school [OF this] assms show ?thesis by auto
qed

lemma getCurrent_total: "\<exists>c. data (getCurrent w clk) = Some c"
proof (cases "\<exists>d. data (getByDate w (clk 1) (formatDateToISO (clk 0))) = Some d \<and> isSchoolDay d")
  case True
  then obtain d where d: "data (getByDate w (clk 1) (formatDateToISO (clk 0))) = Some d"
    "isSchoolDay d" by blast
  from getCurrent_located [OF d] show ?thesis by blast
next
  case False
  then have "\<forall>d. data (getByDate w (clk 1) (formatDateToISO (clk 0))) = Some d \<longrightarrow> \<not> isSchoolDay d"
    by blast
  from getCurrent_no_school [OF this] show ?thesis by blast
qed

lemma getCurrent_status_type:
  assumes "data (getCurrent w clk) = Some c" and "currentPeriod c = Some item"
  shows "status c = type item \<and> type item \<in> {''assembly'', ''period'', ''break''}"
proof -
  from getCurrent_cases [OF assms(1)] assms(2)
  have "\<exists>d. data (getByDate w (clk 1) (formatDateToISO (clk 0))) = Some d
          \<and> currentPeriod c = findCurrent (formatTimeForComparison (clk 0)) (schedule d)
          \<and> status c = type item"
    by auto
  then obtain d where d: "data (getByDate w (clk 1) (formatDateToISO (clk 0))) = Some d"
    and cur: "currentPeriod c = findCurrent (formatTimeForComparison (clk 0)) (schedule d)"
    and st: "status c = type item"
    by blast
  from cur assms(2) have "item \<in> set (schedule d)"
    by (simp add: findCurrent_mem)
  with getByDate_schedule [OF d] obtain t where "item \<in> set (buildSchedule w t (day_data.dayCycle d))"
    by auto
  from buildSchedule_types [OF this] st show ?thesis by simp
qed

lemma remainingOf_valid:
  assumes "validTime (end' item)"
  shows "remainingOf now today (Some item)
           = Some (Num (max 0 ((endAsDate today (end' item) - getTime now) div 1000)))"
proof -
  from validTime_parts [OF assms]
  have p: "end' item = take 2 (end' item) @ '':'' @ drop 3 (end' item)"
    and h: "take 2 (end' item) \<noteq> []" "list_all isDigit (take 2 (end' item))"
    and m: "drop 3 (end' item) \<noteq> []" "list_all isDigit (drop 3 (end' item))"
    by auto
  have "parseTimeToDate today (take 2 (end' item) @ '':'' @ drop 3 (end' item))
      = Some (setHours today (int (decimalValue (take 2 (end' item))))
                (int (decimalValue (drop 3 (end' item)))))"
    using h m by (rule parseTimeToDate_digits)
  with p have "parseTimeToDate today (end' item) = Some (endAsDate today (end' item))"
    by (simp add: endAsDate_def setHours_def)
  then show ?thesis by (simp add: remainingOf_def)
qed

lemma remainingOf_at_end:
  assumes "end' item = formatTimeForComparison now" and "sameLocalDay now today"
  shows "remainingOf now today (Some item) = Some (Num 0)"
proof -
  have "setHours today (int (getHours now)) (int (getMinutes now)) - getTime now
          = - (int (getSeconds now) * 1000 + int (getMilliseconds now))"
    using assms(2) by (simp add: setHours_def sameLocalDay_def msOfDay_def algebra_simps)
  then have "(setHours today (int (getHours now)) (int (getMinutes now)) - getTime now) div 1000 \<le> 0"
    by (simp add: div_nonpos_pos_le0)
  then show ?thesis
    using assms(1) by (simp add: remainingOf_def parseTimeToDate_format)
qed


lemma remainingOf_Some_iff: "remainingOf now today cur \<noteq> None \<longleftrightarrow> cur \<noteq> None"
  by (simp add: remainingOf_def split: option.splits)

lemma remainingOf_nonneg: "remainingOf now today cur = Some (Num n) \<Longrightarrow> 0 \<le> n"
  by (auto simp add: remainingOf_def split: option.splits)

lemma getCurrent_remaining:
  assumes "data (getCurrent w clk) = Some c"
  shows "remainingSeconds c = remainingOf (clk 0) (clk 2) (currentPeriod c)
       \<and> remainingFormatted c = formattedOf (remainingSeconds c)"
  using getCurrent_cases [OF assms] by (auto simp add: remainingOf_def formattedOf_def)

lemma whole_seconds_mono:
  fixes e :: int
  assumes "t \<le> t'"
  shows "max 0 ((e - t') div 1000) \<le> max 0 ((e - t) div 1000)"
proof -
  from assms have "(e - t') div 1000 \<le> (e - t) div 1000"
    by (intro zdiv_mono1) simp_all
  then show ?thesis by simp
qed

lemma whole_seconds_strict:
  fixes e :: int
  assumes "t + 1000 \<le> t'" and "0 < max 0 ((e - t) div 1000)"
  shows "max 0 ((e - t') div 1000) < max 0 ((e - t) div 1000)"
proof -
  from assms(1) have "(e - t') div 1000 \<le> (e - t - 1000) div 1000"
    by (intro zdiv_mono1) simp_all
  also have "(e - t - 1000) div 1000 = (e - t) div 1000 - 1"
    by simp
  finally have "(e - t') div 1000 < (e - t) div 1000" by simp
  with assms(2) show ?thesis by simp
qed

lemma whole_seconds_zero:
  fixes e :: int
  assumes "e \<le> t"
  shows "max 0 ((e - t) div 1000) = 0"
proof -
  from assms have "(e - t) div 1000 \<le> 0"
    by (intro div_nonpos_pos_le0) simp_all
  then show ?thesis by simp
qed

lemma item_spans [simp]:
  "start (assemblyItem a) = start a" "end' (assemblyItem a) = end' a"
  "start (periodItem w dc i p) = start p" "end' (periodItem w dc i p) = end' p"
  "start (breakItem b) = start b" "end' (breakItem b) = end' b"
  by (simp_all add: assemblyItem_def periodItem_def breakItem_def Let_def)





text \<open>
  C5, amended. In the result of \<open>getCurrent\<close>, \<open>remainingSeconds\<close> is not null
  exactly when there is a current slot, and it is null when the status is
  \<^verbatim>\<open>free\<close> or \<^verbatim>\<open>no-school\<close>. For a current slot whose end is a valid time
  it is \<open>max 0\<close> of the whole seconds (the floor of the millisecond difference divided by
  1000) from \<^verbatim>\<open>now\<close> to the slot's end on the local day of the clock reading taken
  inside \<^verbatim>\<open>parseTimeToDate\<close>; a number it returns is never negative, and it is 0
  when \<^verbatim>\<open>now\<close> is at or after that end. For two calls with the same current slot
  whose readings inside \<^verbatim>\<open>parseTimeToDate\<close> fall on the same local day, the later
  call (by \<^verbatim>\<open>now\<close>) never returns more, and it returns strictly less when
  \<^verbatim>\<open>now\<close> has advanced by at least 1000 milliseconds from a positive value.
\<close>

theorem remaining_seconds_clamped:
  assumes "data (getCurrent w clk) = Some c"
  shows "(remainingSeconds c \<noteq> None \<longleftrightarrow> currentPeriod c \<noteq> None)
       \<and> (status c = ''free'' \<or> status c = ''no-school'' \<longrightarrow> remainingSeconds c = None)
       \<and> (\<forall>item. currentPeriod c = Some item \<and> validTime (end' item) \<longrightarrow>
             remainingSeconds c =
               Some (Num (max 0 ((endAsDate (clk 2) (end' item) - getTime (clk 0)) div 1000))))
       \<and> (\<forall>n. remainingSeconds c = Some (Num n) \<longrightarrow> 0 \<le> n)
       \<and> (\<forall>item. currentPeriod c = Some item \<and> validTime (end' item)
                 \<and> endAsDate (clk 2) (end' item) \<le> getTime (clk 0) \<longrightarrow>
             remainingSeconds c = Some (Num 0))
       \<and> (\<forall>clk' c' item. data (getCurrent w clk') = Some c'
                 \<and> currentPeriod c = Some item \<and> currentPeriod c' = Some item
                 \<and> validTime (end' item) \<and> sameLocalDay (clk 2) (clk' 2) \<longrightarrow>
             (\<exists>n n'. remainingSeconds c = Some (Num n) \<and> remainingSeconds c' = Some (Num n')
                \<and> (getTime (clk 0) \<le> getTime (clk' 0) \<longrightarrow> n' \<le> n)
                \<and> (getTime (clk 0) + 1000 \<le> getTime (clk' 0) \<and> 0 < n \<longrightarrow> n' < n)))"
proof -
  note r = getCurrent_remaining [OF assms]
  have A: "remainingSeconds c \<noteq> None \<longleftrightarrow> currentPeriod c \<noteq> None"
    using r remainingOf_Some_iff [of "clk 0" "clk 2" "currentPeriod c"] by simp
  have B: "remainingSeconds c = None" if "status c = ''free'' \<or> status c = ''no-school''"
  proof (cases "currentPeriod c")
    case None
    with A show ?thesis by simp
  next
    case (Some item)
    from getCurrent_status_type [OF assms Some] that show ?thesis by auto
  qed
  have C: "remainingSeconds c =
             Some (Num (max 0 ((endAsDate (clk 2) (end' item) - getTime (clk 0)) div 1000)))"
    if "currentPeriod c = Some item" "validTime (end' item)" for item
    using r that by (simp add: remainingOf_valid)
  have D: "0 \<le> n" if "remainingSeconds c = Some (Num n)" for n
    using r that remainingOf_nonneg [of "clk 0" "clk 2" "currentPeriod c" n] by simp
  have E: "remainingSeconds c = Some (Num 0)"
    if "currentPeriod c = Some item" "validTime (end' item)"
      "endAsDate (clk 2) (end' item) \<le> getTime (clk 0)" for item
    using C [OF that(1,2)] whole_seconds_zero [OF that(3)] by simp
  have F: "\<exists>n n'. remainingSeconds c = Some (Num n) \<and> remainingSeconds c' = Some (Num n')
                \<and> (getTime (clk 0) \<le> getTime (clk' 0) \<longrightarrow> n' \<le> n)
                \<and> (getTime (clk 0) + 1000 \<le> getTime (clk' 0) \<and> 0 < n \<longrightarrow> n' < n)"
    if h: "data (getCurrent w clk') = Some c'" "currentPeriod c = Some item"
      "currentPeriod c' = Some item" "validTime (end' item)" "sameLocalDay (clk 2) (clk' 2)"
    for clk' c' item
  proof -
    let ?e = "endAsDate (clk 2) (end' item)"
    have e: "endAsDate (clk' 2) (end' item) = ?e"
      using h(5) by (simp add: endAsDate_def sameLocalDay_def)
    have n: "remainingSeconds c = Some (Num (max 0 ((?e - getTime (clk 0)) div 1000)))"
      using C [OF h(2,4)] .
    have "remainingSeconds c' = remainingOf (clk' 0) (clk' 2) (currentPeriod c')"
      using getCurrent_remaining [OF h(1)] by simp
    with h(3,4) e
    have n': "remainingSeconds c' = Some (Num (max 0 ((?e - getTime (clk' 0)) div 1000)))"
      by (simp add: remainingOf_valid)
    define k where "k = max 0 ((?e - getTime (clk 0)) div 1000)"
    define k' where "k' = max 0 ((?e - getTime (clk' 0)) div 1000)"
    have m: "getTime (clk 0) \<le> getTime (clk' 0) \<longrightarrow> k' \<le> k"
      unfolding k_def k'_def by (intro impI whole_seconds_mono)
    have st: "getTime (clk 0) + 1000 \<le> getTime (clk' 0) \<and> 0 < k \<longrightarrow> k' < k"
      unfolding k_def k'_def by (intro impI whole_seconds_strict) (erule conjunct1, erule conjunct2)
    have kc: "remainingSeconds c = Some (Num k)"
      using n by (simp only: k_def)
    have kc': "remainingSeconds c' = Some (Num k')"
      using n' by (simp only: k'_def)
    from kc kc' m st show ?thesis by (intro exI [of _ k] exI [of _ k'] conjI)
  qed
  have B': "status c = ''free'' \<or> status c = ''no-school'' \<longrightarrow> remainingSeconds c = None"
    using B by (intro impI)
  have C': "\<forall>item. currentPeriod c = Some item \<and> validTime (end' item) \<longrightarrow>
             remainingSeconds c =
               Some (Num (max 0 ((endAsDate (clk 2) (end' item) - getTime (clk 0)) div 1000)))"
    using C by (intro allI impI) (elim conjE)
  have D': "\<forall>n. remainingSeconds c = Some (Num n) \<longrightarrow> 0 \<le> n"
    using D by (intro allI impI)
  have E': "\<forall>item. currentPeriod c = Some item \<and> validTime (end' item)
                 \<and> endAsDate (clk 2) (end' item) \<le> getTime (clk 0) \<longrightarrow>
             remainingSeconds c = Some (Num 0)"
    using E by (intro allI impI) (elim conjE)
  have F': "\<forall>clk' c' item. data (getCurrent w clk') = Some c'
                 \<and> currentPeriod c = Some item \<and> currentPeriod c' = Some item
                 \<and> validTime (end' item) \<and> sameLocalDay (clk 2) (clk' 2) \<longrightarrow>
             (\<exists>n n'. remainingSeconds c = Some (Num n) \<and> remainingSeconds c' = Some (Num n')
                \<and> (getTime (clk 0) \<le> getTime (clk' 0) \<longrightarrow> n' \<le> n)
                \<and> (getTime (clk 0) + 1000 \<le> getTime (clk' 0) \<and> 0 < n \<longrightarrow> n' < n))"
    using F by (intro allI impI) (elim conjE)
  from A B' C' D' E' F' show ?thesis by (intro conjI)
qed

text \<open>
  C10. In the result of \<open>getCurrent\<close>, \<open>remainingFormatted\<close> is the
  \<^verbatim>\<open>HH:MM:SS\<close> string of \<open>formatSeconds\<close> exactly when \<open>remainingSeconds\<close>
  is a number greater than 0, and null otherwise. When a slot is current and the
  current time \<^verbatim>\<open>HH:MM\<close> is the slot's end (and the clock reading inside
  \<^verbatim>\<open>parseTimeToDate\<close> is on the same local day), \<open>remainingSeconds\<close> is 0 and
  \<open>remainingFormatted\<close> is null although the current period is a slot.
\<close>

theorem remaining_formatted_zero_is_null:
  assumes "data (getCurrent w clk) = Some c"
  shows "remainingFormatted c =
           (case remainingSeconds c of
              Some (Num n) \<Rightarrow> if 0 < n then Some (formatSeconds (nat n)) else None
            | _ \<Rightarrow> None)
       \<and> (\<forall>item. currentPeriod c = Some item \<and> end' item = currentTime c
                 \<and> sameLocalDay (clk 0) (clk 2) \<longrightarrow>
             remainingSeconds c = Some (Num 0) \<and> remainingFormatted c = None)"
proof -
  note r = getCurrent_remaining [OF assms]
  have nn: "0 \<le> n" if "remainingSeconds c = Some (Num n)" for n
    using r that remainingOf_nonneg [of "clk 0" "clk 2" "currentPeriod c" n] by simp
  have A: "remainingFormatted c =
           (case remainingSeconds c of
              Some (Num n) \<Rightarrow> if 0 < n then Some (formatSeconds (nat n)) else None
            | _ \<Rightarrow> None)"
  proof (cases "remainingSeconds c")
    case None
    with r show ?thesis by (simp add: formattedOf_def)
  next
    case (Some v)
    show ?thesis
    proof (cases v)
      case NaN
      with Some r show ?thesis by (simp add: formattedOf_def)
    next
      case (Num n)
      with Some nn have "0 \<le> n" by simp
      with Some Num r show ?thesis by (auto simp add: formattedOf_def)
    qed
  qed
  have B: "remainingSeconds c = Some (Num 0) \<and> remainingFormatted c = None"
    if h: "currentPeriod c = Some item" "end' item = currentTime c"
      "sameLocalDay (clk 0) (clk 2)" for item
  proof -
    from getCurrent_cases [OF assms] h(1)
    have "currentTime c = formatTimeForComparison (clk 0)" by auto
    with h(2) have "end' item = formatTimeForComparison (clk 0)" by simp
    from remainingOf_at_end [OF this h(3)] r h(1)
    have z: "remainingSeconds c = Some (Num 0)" by simp
    with A show ?thesis by simp
  qed
  have B': "\<forall>item. currentPeriod c = Some item \<and> end' item = currentTime c
                 \<and> sameLocalDay (clk 0) (clk 2) \<longrightarrow>
             remainingSeconds c = Some (Num 0) \<and> remainingFormatted c = None"
    using B by (intro allI impI) (elim conjE)
  from A B' show ?thesis by (intro conjI)
qed

section \<open>The example day\<close>

lemma ex_schedule:
  "buildSchedule exWorld exTimetable (Some 6) =
     [assemblyItem \<lparr>start = ''08:20'', end' = ''08:40''\<rparr>, exP1, exP2,
      breakItem \<lparr>start = ''10:00'', end' = ''10:20'', name = ''Recess''\<rparr>,
      periodItem exWorld (Some 6) 2 \<lparr>start = ''10:20'', end' = ''11:00''\<rparr>]"
  by (simp add: buildSchedule_def pushedItems_def exTimetable_def enumerate_eq_zip
      localeCompare_def exP1_def exP2_def numeral_2_eq_2)

lemma ex_today:
  "\<exists>d. data (getByDate exWorld ts ''2025-12-15'') = Some d \<and> isSchoolDay d
       \<and> schedule d = buildSchedule exWorld exTimetable (Some 6)"
  by (simp add: getByDate_def exWorld_def iso_eval orNullStr_def orNullNum_def
      resolveType_def Let_def)

lemma ex_date: "formatDateToISO (exClock h m s ms i) = ''2025-12-15''"
  by (simp add: formatDateToISO_def exClock_def exInstant_def natToString.simps
      padStart_def digitChar_def)

lemma ex_time:
  "formatTimeForComparison (exClock 9 20 30 250 0) = ''09:20''"
  "formatTimeForComparison (exClock 9 0 0 100 0) = ''09:00''"
  "formatTimeForComparison (exClock 9 0 0 600 0) = ''09:00''"
  "formatTimeForComparison (exClock 9 0 1 100 0) = ''09:00''"
  by (simp_all add: formatTimeForComparison_def exClock_def exInstant_def natToString.simps
      padStart_def digitChar_def)

lemma ex_same_day: "sameLocalDay (exClock h m s ms i) (exClock h' m' s' ms' j)"
  by (simp add: sameLocalDay_def exClock_def exInstant_def msOfDay_def)

lemma ex_P1: "start exP1 = ''08:40''" "end' exP1 = ''09:20''" "type exP1 = ''period''"
  "periodNumber exP1 = Some 1"
  by (simp_all add: exP1_def periodItem_def)



lemma ex_jump_date: "formatDateToISO (exClockJump h m s ms 0) = ''2025-12-15''"
  by (simp add: formatDateToISO_def exClockJump_def exInstant_def natToString.simps
      padStart_def digitChar_def)

lemma ex_jump_time:
  "formatTimeForComparison (exClockJump 9 20 30 250 0) = ''09:20''"
  "formatTimeForComparison (exClockJump 9 0 1 100 0) = ''09:00''"
  by (simp_all add: formatTimeForComparison_def exClockJump_def exInstant_def natToString.simps
      padStart_def digitChar_def)

lemma ex_current_at:
  assumes "formatDateToISO (clk 0) = ''2025-12-15''"
    and "formatTimeForComparison (clk 0) = ''09:00'' \<or> formatTimeForComparison (clk 0) = ''09:20''"
  shows "\<exists>c. data (getCurrent exWorld clk) = Some c \<and> currentPeriod c = Some exP1"
proof -
  from ex_today [of "clk 1"] obtain d
    where d: "data (getByDate exWorld (clk 1) (formatDateToISO (clk 0))) = Some d"
      and sd: "isSchoolDay d"
      and sch: "schedule d = buildSchedule exWorld exTimetable (Some 6)"
    by (auto simp add: assms(1))
  from assms(2) show ?thesis
  proof
    assume "formatTimeForComparison (clk 0) = ''09:00''"
    with getCurrent_located [OF d sd] show ?thesis
      by (simp add: sch ex_schedule isTimeInRange_def ex_P1)
  next
    assume "formatTimeForComparison (clk 0) = ''09:20''"
    with getCurrent_located [OF d sd] show ?thesis
      by (simp add: sch ex_schedule isTimeInRange_def ex_P1)
  qed
qed

lemma ex_jump_end:
  "endAsDate (exClockJump h m s ms 2) ''09:20'' = 1765728000000 + 86400000 + 33600000"
  by (simp add: valid_eval endAsDate_def exClockJump_def exInstant_def msOfDay_def)



lemma ex_current_0900:
  assumes "formatTimeForComparison (exClock 9 0 s ms 0) = ''09:00''"
  shows "\<exists>c. data (getCurrent exWorld (exClock 9 0 s ms)) = Some c
           \<and> currentPeriod c = Some exP1"
proof -
  let ?clk = "exClock 9 0 s ms"
  from ex_today [of "?clk 1"] obtain d
    where d: "data (getByDate exWorld (?clk 1) (formatDateToISO (?clk 0))) = Some d"
      and sd: "isSchoolDay d"
      and sch: "schedule d = buildSchedule exWorld exTimetable (Some 6)"
    by (auto simp add: ex_date)
  from getCurrent_located [OF d sd] show ?thesis
    by (simp add: assms sch ex_schedule isTimeInRange_def ex_P1)
qed

lemma ex_end: "validTime ''09:20''"
  "endAsDate (exClock 9 0 s ms 2) ''09:20'' = 1765728000000 + 33600000"
  by (simp_all add: valid_eval endAsDate_def exClock_def exInstant_def msOfDay_def)

text \<open>
  C5, as stated, fails: \<open>remainingSeconds\<close> does not strictly decrease as
  \<^verbatim>\<open>now\<close> advances through an active slot. It counts whole seconds, so two calls
  half a second apart, at 09:00:00.100 and at 09:00:00.600 in the first period, both
  return 1199. And the slot's end is dated on the day of a second reading of the clock:
  a call at 09:00:01.100 whose later readings are one day on returns 87598.
\<close>

theorem remaining_not_strictly_decreasing:
  "getTime (exClock 9 0 0 100 0) < getTime (exClock 9 0 0 600 0) \<and>
   getTime (exClock 9 0 0 600 0) < getTime (exClockJump 9 0 1 100 0) \<and>
   currentPeriod (the (data (getCurrent exWorld (exClock 9 0 0 100)))) = Some exP1 \<and>
   currentPeriod (the (data (getCurrent exWorld (exClock 9 0 0 600)))) = Some exP1 \<and>
   currentPeriod (the (data (getCurrent exWorld (exClockJump 9 0 1 100)))) = Some exP1 \<and>
   remainingSeconds (the (data (getCurrent exWorld (exClock 9 0 0 100)))) = Some (Num 1199) \<and>
   remainingSeconds (the (data (getCurrent exWorld (exClock 9 0 0 600)))) = Some (Num 1199) \<and>
   remainingSeconds (the (data (getCurrent exWorld (exClockJump 9 0 1 100))))
     = Some (Num 87598)"
proof -
  from ex_current_0900 [OF ex_time(2)] obtain c
    where c: "data (getCurrent exWorld (exClock 9 0 0 100)) = Some c"
      "currentPeriod c = Some exP1" by blast
  from ex_current_0900 [OF ex_time(3)] obtain c'
    where c': "data (getCurrent exWorld (exClock 9 0 0 600)) = Some c'"
      "currentPeriod c' = Some exP1" by blast
  from ex_current_at [of "exClockJump 9 0 1 100", OF ex_jump_date disjI1 [OF ex_jump_time(2)]] obtain c''
    where c'': "data (getCurrent exWorld (exClockJump 9 0 1 100)) = Some c''"
      "currentPeriod c'' = Some exP1"
    by blast
  have "remainingSeconds c = Some (Num 1199)"
    using getCurrent_remaining [OF c(1)] c(2)
    by (simp add: remainingOf_valid ex_P1 ex_end) (simp add: exClock_def exInstant_def)
  moreover have "remainingSeconds c' = Some (Num 1199)"
    using getCurrent_remaining [OF c'(1)] c'(2)
    by (simp add: remainingOf_valid ex_P1 ex_end) (simp add: exClock_def exInstant_def)
  moreover have "remainingSeconds c'' = Some (Num 87598)"
    using getCurrent_remaining [OF c''(1)] c''(2)
    by (simp add: remainingOf_valid ex_P1 ex_end ex_jump_end)
       (simp add: exClockJump_def exInstant_def)
  moreover have "getTime (exClock 9 0 0 100 0) < getTime (exClock 9 0 0 600 0)"
    "getTime (exClock 9 0 0 600 0) < getTime (exClockJump 9 0 1 100 0)"
    by (simp_all add: exClock_def exClockJump_def exInstant_def)
  ultimately show ?thesis using c c' c'' by simp
qed

text \<open>Two calls in the first period, one second apart, on the same day: 1199 seconds
  left, then 1198.\<close>

theorem remaining_seconds_clamped_witness:
  "remainingSeconds (the (data (getCurrent exWorld (exClock 9 0 0 100)))) = Some (Num 1199) \<and>
   remainingSeconds (the (data (getCurrent exWorld (exClock 9 0 1 100)))) = Some (Num 1198) \<and>
   getTime (exClock 9 0 0 100 0) + 1000 \<le> getTime (exClock 9 0 1 100 0) \<and>
   sameLocalDay (exClock 9 0 0 100 2) (exClock 9 0 1 100 2)"
proof -
  from ex_current_0900 [OF ex_time(2)] obtain c
    where c: "data (getCurrent exWorld (exClock 9 0 0 100)) = Some c"
      "currentPeriod c = Some exP1" by blast
  from ex_current_0900 [OF ex_time(4)] obtain c'
    where c': "data (getCurrent exWorld (exClock 9 0 1 100)) = Some c'"
      "currentPeriod c' = Some exP1" by blast
  have v: "validTime (end' exP1)" by (simp add: ex_P1 ex_end)
  have sd: "sameLocalDay (exClock 9 0 0 100 2) (exClock 9 0 1 100 2)"
    by (rule ex_same_day)
  have adv: "getTime (exClock 9 0 0 100 0) + 1000 \<le> getTime (exClock 9 0 1 100 0)"
    by (simp add: exClock_def exInstant_def)
  note rsc = remaining_seconds_clamped [OF c(1)]
  from rsc [THEN conjunct2, THEN conjunct2, THEN conjunct1, rule_format, of exP1] c(2) v
  have "remainingSeconds c =
      Some (Num (max 0 ((endAsDate (exClock 9 0 0 100 2) (end' exP1)
                          - getTime (exClock 9 0 0 100 0)) div 1000)))"
    by simp
  then have n: "remainingSeconds c = Some (Num 1199)"
    by (simp add: ex_P1 ex_end) (simp add: exClock_def exInstant_def)
  from rsc [THEN conjunct2, THEN conjunct2, THEN conjunct2, THEN conjunct2, THEN conjunct2,
      rule_format, of "exClock 9 0 1 100" c' exP1] c' c(2) v sd
  obtain k k' where k: "remainingSeconds c = Some (Num k)" "remainingSeconds c' = Some (Num k')"
    and less: "getTime (exClock 9 0 0 100 0) + 1000 \<le> getTime (exClock 9 0 1 100 0) \<and> 0 < k
                 \<longrightarrow> k' < k"
    by auto
  from k(1) n have "k = 1199" by simp
  with less adv have "k' < 1199" by simp
  moreover from remaining_seconds_clamped [OF c'(1), THEN conjunct2, THEN conjunct2,
      THEN conjunct1, rule_format, of exP1] c'(2) v
  have "remainingSeconds c' =
      Some (Num (max 0 ((endAsDate (exClock 9 0 1 100 2) (end' exP1)
                          - getTime (exClock 9 0 1 100 0)) div 1000)))"
    by simp
  then have n': "remainingSeconds c' = Some (Num 1198)"
    by (simp add: ex_P1 ex_end) (simp add: exClock_def exInstant_def)
  from n n' adv sd c c' show ?thesis by simp
qed

text \<open>At 09:20:30 the first period is current with 0 seconds left and no formatted
  string; at 09:00:00.100 the string is \<^verbatim>\<open>00:19:59\<close>.\<close>

theorem remaining_formatted_zero_is_null_witness:
  "currentPeriod (the (data (getCurrent exWorld (exClock 9 20 30 250)))) = Some exP1 \<and>
   remainingSeconds (the (data (getCurrent exWorld (exClock 9 20 30 250)))) = Some (Num 0) \<and>
   remainingFormatted (the (data (getCurrent exWorld (exClock 9 20 30 250)))) = None \<and>
   remainingFormatted (the (data (getCurrent exWorld (exClock 9 0 0 100)))) = Some ''00:19:59''"
proof -
  let ?clk = "exClock 9 20 30 250"
  from ex_today [of "?clk 1"] obtain d
    where d: "data (getByDate exWorld (?clk 1) (formatDateToISO (?clk 0))) = Some d"
      and sd: "isSchoolDay d"
      and sch: "schedule d = buildSchedule exWorld exTimetable (Some 6)"
    by (auto simp add: ex_date)
  from getCurrent_located [OF d sd] obtain c
    where c: "data (getCurrent exWorld ?clk) = Some c"
      and cur: "currentPeriod c = Some exP1" and ct: "currentTime c = ''09:20''"
    by (simp add: ex_time sch ex_schedule isTimeInRange_def ex_P1)
  from remaining_formatted_zero_is_null [OF c] cur ct
  have z: "remainingSeconds c = Some (Num 0) \<and> remainingFormatted c = None"
    using ex_same_day [of 9 20 30 250 0 9 20 30 250 2] by (simp add: ex_P1)
  from ex_current_0900 [OF ex_time(2)] obtain c'
    where c': "data (getCurrent exWorld (exClock 9 0 0 100)) = Some c'"
      "currentPeriod c' = Some exP1" by blast
  have "remainingSeconds c' = Some (Num 1199)"
    using getCurrent_remaining [OF c'(1)] c'(2)
    by (simp add: remainingOf_valid ex_P1 ex_end) (simp add: exClock_def exInstant_def)
  with remaining_formatted_zero_is_null [OF c'(1)]
  have "remainingFormatted c' = Some (formatSeconds 1199)" by simp
  then have "remainingFormatted c' = Some ''00:19:59''"
    by (simp add: formatSeconds_def natToString.simps padStart_def digitChar_def)
  with z c cur c' show ?thesis by simp
qed

end
